theory Spec2Isabelle
  imports Complex_Main
begin

section \<open>The timer registry and the stopwatch of \<open>utilities/pbp_timer.py\<close>\<close>

text \<open>
  The module holds two classes. \<open>Timers\<close> is a dictionary of accumulated totals
  (\<open>self.data\<close>, inherited from \<open>UserDict\<close>) with a private dictionary of all
  recorded values (\<open>self._timings\<close>, a \<open>defaultdict(list)\<close>). \<open>Timer\<close> is a
  stopwatch that reports through an injected callback and forwards its result to the
  class-level \<open>Timers\<close> instance.

  Durations are Python floats. They are idealised as real numbers here: rounding is not
  modelled, and the only special float value that the module produces itself,
  \<open>math.nan\<close>, is a constructor of its own. Exceptions are values of a sum type,
  mutation is explicit state passing, the clock reading is an argument.
  Record fields carry the class name as a prefix.
\<close>

subsection \<open>Values and errors\<close>

datatype error =
    TypeError
  | KeyError string
  | TimerError string
  | ValueError
  | StatisticsError
  | Raised string

datatype pyfloat = NaN | Fin real

subsection \<open>Library functions the module calls\<close>

text \<open>
  The builtins \<open>sum\<close>, \<open>min\<close>, \<open>max\<close> and the functions of the \<open>statistics\<close>
  module, after their documentation. \<open>sum\<close> adds from the left, starting at 0;
  \<open>min\<close> and \<open>max\<close> raise \<open>ValueError\<close> on an empty sequence; \<open>mean\<close> and
  \<open>median\<close> raise \<open>StatisticsError\<close> on an empty sequence, \<open>stdev\<close> on fewer
  than two values.
\<close>

definition sum_py :: "real list \<Rightarrow> real" where
  "sum_py xs = foldl (+) 0 xs"

fun min_py :: "real list \<Rightarrow> error + real" where
  "min_py [] = Inl ValueError"
| "min_py (x # xs) = Inr (foldl (\<lambda>m y. if y < m then y else m) x xs)"

fun max_py :: "real list \<Rightarrow> error + real" where
  "max_py [] = Inl ValueError"
| "max_py (x # xs) = Inr (foldl (\<lambda>m y. if y > m then y else m) x xs)"

definition statistics_mean :: "real list \<Rightarrow> error + real" where
  "statistics_mean xs =
     (if xs = [] then Inl StatisticsError else Inr (sum_list xs / real (length xs)))"

definition statistics_median :: "real list \<Rightarrow> error + real" where
  "statistics_median xs =
     (let s = sort xs; n = length s in
      if n = 0 then Inl StatisticsError
      else if n mod 2 = 1 then Inr (s ! (n div 2))
      else Inr ((s ! (n div 2 - 1) + s ! (n div 2)) / 2))"

definition statistics_stdev :: "real list \<Rightarrow> error + real" where
  "statistics_stdev xs =
     (let n = length xs in
      if n < 2 then Inl StatisticsError
      else let m = sum_list xs / real n;
               ss = sum_list (map (\<lambda>x. (x - m) ^ 2) xs)
           in Inr (sqrt (ss / real (n - 1))))"

subsection \<open>Class \<open>Timers\<close>\<close>

record Timers =
  timers_data :: "string \<rightharpoonup> real"
  timers_timings :: "string \<rightharpoonup> real list"

text \<open>
  \<open>__init__\<close>: an empty \<open>UserDict\<close> and an empty \<open>defaultdict(list)\<close>. (An initial
  dictionary would go through \<open>__setitem__\<close>, which raises.)
\<close>

definition Timers_init :: Timers where
  "Timers_init = \<lparr>timers_data = Map.empty, timers_timings = Map.empty\<rparr>"

text \<open>
  \<open>add\<close>: \<open>self._timings[name].append(value)\<close> creates the list on first use;
  \<open>self.data.setdefault(name, 0)\<close> followed by \<open>self.data[name] += value\<close>.
\<close>

definition Timers_add :: "string \<Rightarrow> real \<Rightarrow> Timers \<Rightarrow> Timers" where
  "Timers_add name val r =
     (let tm = (timers_timings r)
                 (name \<mapsto> (case timers_timings r name of None \<Rightarrow> [] | Some vs \<Rightarrow> vs) @ [val]);
          d0 = (case timers_data r name of
                  None \<Rightarrow> (timers_data r)(name \<mapsto> 0)
                | Some _ \<Rightarrow> timers_data r);
          d1 = d0(name \<mapsto> (case d0 name of None \<Rightarrow> 0 | Some t \<Rightarrow> t) + val)
      in \<lparr>timers_data = d1, timers_timings = tm\<rparr>)"

definition Timers_clear :: "Timers \<Rightarrow> Timers" where
  "Timers_clear r = \<lparr>timers_data = Map.empty, timers_timings = Map.empty\<rparr>"

text \<open>\<open>__setitem__\<close> raises \<open>TypeError\<close> and touches nothing.\<close>

definition Timers_setitem :: "string \<Rightarrow> real \<Rightarrow> Timers \<Rightarrow> (error + unit) \<times> Timers" where
  "Timers_setitem name val r = (Inl TypeError, r)"

text \<open>
  \<open>apply\<close> tests \<open>name in self._timings\<close> before it reads the entry, so the
  \<open>defaultdict\<close> never creates one here; an exception of \<open>func\<close> propagates.
\<close>

definition Timers_apply :: "(real list \<Rightarrow> error + 'a) \<Rightarrow> string \<Rightarrow> Timers \<Rightarrow> error + 'a" where
  "Timers_apply func name r =
     (case timers_timings r name of
        Some vs \<Rightarrow> func vs
      | None \<Rightarrow> Inl (KeyError name))"

definition Timers_count :: "string \<Rightarrow> Timers \<Rightarrow> error + nat" where
  "Timers_count name r = Timers_apply (\<lambda>vs. Inr (length vs)) name r"

definition Timers_total :: "string \<Rightarrow> Timers \<Rightarrow> error + real" where
  "Timers_total name r = Timers_apply (\<lambda>vs. Inr (sum_py vs)) name r"

text \<open>\<open>values or [0]\<close>: an empty list is false in Python.\<close>

definition or_zero :: "real list \<Rightarrow> real list" where
  "or_zero vs = (if vs = [] then [0] else vs)"

definition Timers_min :: "string \<Rightarrow> Timers \<Rightarrow> error + real" where
  "Timers_min name r = Timers_apply (\<lambda>vs. min_py (or_zero vs)) name r"

definition Timers_max :: "string \<Rightarrow> Timers \<Rightarrow> error + real" where
  "Timers_max name r = Timers_apply (\<lambda>vs. max_py (or_zero vs)) name r"

definition Timers_mean :: "string \<Rightarrow> Timers \<Rightarrow> error + real" where
  "Timers_mean name r = Timers_apply (\<lambda>vs. statistics_mean (or_zero vs)) name r"

definition Timers_median :: "string \<Rightarrow> Timers \<Rightarrow> error + real" where
  "Timers_median name r = Timers_apply (\<lambda>vs. statistics_median (or_zero vs)) name r"

definition Timers_stdev :: "string \<Rightarrow> Timers \<Rightarrow> error + pyfloat" where
  "Timers_stdev name r =
     (case timers_timings r name of
        Some vs \<Rightarrow>
          (if length vs \<ge> 2
           then (case statistics_stdev vs of Inl e \<Rightarrow> Inl e | Inr s \<Rightarrow> Inr (Fin s))
           else Inr NaN)
      | None \<Rightarrow> Inl (KeyError name))"

subsection \<open>Sequences of registry operations\<close>

datatype op = Add string real | Clear

fun step :: "Timers \<Rightarrow> op \<Rightarrow> Timers" where
  "step r (Add name val) = Timers_add name val r"
| "step r Clear = Timers_clear r"

definition run :: "op list \<Rightarrow> Timers" where
  "run ops = foldl step Timers_init ops"

subsection \<open>Class \<open>Timer\<close>\<close>

text \<open>
  \<open>text\<close> is either a template string or a callable from the elapsed seconds to a
  string; the callable may raise. \<open>logger\<close> is an optional callback: what it prints as
  (\<open>"{}".format(self.logger)\<close>) and what a call of it does, which is to return or to
  raise. The strings a callback has received are kept in a list, in call order.
\<close>

datatype text_spec = Template string | Function "real \<Rightarrow> error + string"

record sink =
  sink_repr :: string
  sink_call :: "string \<Rightarrow> error option"

record Timer =
  timer_start_time :: "real option"
  timer_name :: "string option"
  timer_text :: text_spec
  timer_logger :: "sink option"
  timer_show_fps :: bool
  timer_last :: pyfloat

definition default_text :: string where
  "default_text = ''[{level}] {name}: {:0.4f} seconds {fps}''"

text \<open>The dataclass constructor: \<open>_start_time\<close> and \<open>last\<close> are not parameters.\<close>

definition Timer_init :: "string option \<Rightarrow> text_spec \<Rightarrow> sink option \<Rightarrow> bool \<Rightarrow> Timer" where
  "Timer_init name text lg fps =
     \<lparr>timer_start_time = None, timer_name = name, timer_text = text,
      timer_logger = lg, timer_show_fps = fps, timer_last = NaN\<rparr>"

text \<open>
  \<open>str.split(sep)\<close> for a non-empty separator: the pieces between the occurrences of
  \<open>sep\<close>, found from the left. The counter skips the rest of a separator just matched.
\<close>

fun split_aux :: "string \<Rightarrow> nat \<Rightarrow> string \<Rightarrow> string \<Rightarrow> string list" where
  "split_aux sep k cur [] = [cur]"
| "split_aux sep (Suc k) cur (c # cs) = split_aux sep k cur cs"
| "split_aux sep 0 cur (c # cs) =
     (if sep \<noteq> [] \<and> take (length sep) (c # cs) = sep
      then cur # split_aux sep (length sep - 1) [] cs
      else split_aux sep 0 (cur @ [c]) cs)"

definition split_py :: "string \<Rightarrow> string \<Rightarrow> string list" where
  "split_py s sep = split_aux sep 0 [] s"

text \<open>
  \<open>get_logger_level\<close>: the text after the last \<open>" ("\<close> of the logger's printed form, up
  to the first \<open>")"\<close>. \<open>split\<close> never returns an empty list, so \<open>[-1]\<close> and \<open>[0]\<close>
  exist.
\<close>

definition format_logger :: "sink option \<Rightarrow> string" where
  "format_logger lg = (case lg of None \<Rightarrow> ''None'' | Some k \<Rightarrow> sink_repr k)"

definition get_logger_level :: "Timer \<Rightarrow> string" where
  "get_logger_level t =
     (let f = last (split_py (format_logger (timer_logger t)) '' ('')
      in hd (split_py f '')''))"

text \<open>
  The keyword arguments of \<open>self.text.format\<close>. \<open>str.format\<close> itself and the printing
  of a float by \<open>"{}".format\<close> belong to Python, not to this module: they are
  parameters of the model. \<open>str.format\<close> raises on a template that names an unknown
  field.
\<close>

record attributes =
  attr_name :: "string option"
  attr_milliseconds :: real
  attr_seconds :: real
  attr_minutes :: real
  attr_level :: string
  attr_fps :: string

record pyfmt =
  str_format :: "string \<Rightarrow> real \<Rightarrow> attributes \<Rightarrow> error + string"
  float_str :: "real \<Rightarrow> string"

definition render :: "pyfmt \<Rightarrow> Timer \<Rightarrow> real \<Rightarrow> error + string" where
  "render py t elapsed =
     (case timer_text t of
        Function f \<Rightarrow> f elapsed
      | Template s \<Rightarrow>
          str_format py s elapsed
            \<lparr>attr_name = timer_name t,
             attr_milliseconds = elapsed * 1000,
             attr_seconds = elapsed,
             attr_minutes = elapsed / 60,
             attr_level = get_logger_level t,
             attr_fps = (if timer_show_fps t
                         then float_str py (1 / max elapsed (1 / 10 ^ 25)) @ '' fps''
                         else [])\<rparr>)"

text \<open>
  The block under \<open>if self.logger:\<close>. The result is the exception raised, if any, and
  the list of strings the callback has received.
\<close>

definition report :: "pyfmt \<Rightarrow> Timer \<Rightarrow> real \<Rightarrow> string list \<Rightarrow> error option \<times> string list" where
  "report py t elapsed calls =
     (case timer_logger t of
        None \<Rightarrow> (None, calls)
      | Some lg \<Rightarrow>
          (case render py t elapsed of
             Inl e \<Rightarrow> (Some e, calls)
           | Inr s \<Rightarrow> (sink_call lg s, calls @ [s])))"

definition Timer_start :: "real \<Rightarrow> Timer \<Rightarrow> (error + unit) \<times> Timer" where
  "Timer_start now t =
     (if timer_start_time t \<noteq> None
      then (Inl (TimerError ''Timer is running. Use .stop() to stop it''), t)
      else (Inr (), t\<lparr>timer_start_time := Some now\<rparr>))"

text \<open>
  \<open>stop\<close>, with the clock reading \<open>now\<close>, the class-level registry \<open>Timer.timers\<close> and
  the list of strings the callback has received. \<open>self.last\<close> and \<open>self._start_time\<close>
  are assigned before the report; \<open>if self.name:\<close> is false for \<open>None\<close> and for the
  empty string.
\<close>

definition Timer_stop ::
  "pyfmt \<Rightarrow> real \<Rightarrow> Timer \<Rightarrow> Timers \<Rightarrow> string list \<Rightarrow>
     (error + real) \<times> Timer \<times> Timers \<times> string list" where
  "Timer_stop py now t reg calls =
     (case timer_start_time t of
        None \<Rightarrow>
          (Inl (TimerError ''Timer is not running. Use .start() to start it''), t, reg, calls)
      | Some st \<Rightarrow>
          (let elapsed = now - st;
               t1 = t\<lparr>timer_last := Fin elapsed, timer_start_time := None\<rparr>
           in case report py t1 elapsed calls of
                (Some e, calls1) \<Rightarrow> (Inl e, t1, reg, calls1)
              | (None, calls1) \<Rightarrow>
                  (Inr elapsed, t1,
                   (case timer_name t1 of
                      None \<Rightarrow> reg
                    | Some n \<Rightarrow> if n = [] then reg else Timers_add n elapsed reg),
                   calls1)))"

subsection \<open>Reading the outcome of \<open>stop\<close>\<close>

text \<open>
  What the call returned or raised, the timer after the call, the shared registry after
  the call, and the strings the callback has received.
\<close>

definition stop_result :: "(error + real) \<times> Timer \<times> Timers \<times> string list \<Rightarrow> error + real" where
  "stop_result out = fst out"

definition stop_timer :: "(error + real) \<times> Timer \<times> Timers \<times> string list \<Rightarrow> Timer" where
  "stop_timer out = fst (snd out)"

definition stop_registry :: "(error + real) \<times> Timer \<times> Timers \<times> string list \<Rightarrow> Timers" where
  "stop_registry out = fst (snd (snd out))"

definition stop_calls :: "(error + real) \<times> Timer \<times> Timers \<times> string list \<Rightarrow> string list" where
  "stop_calls out = snd (snd (snd out))"

subsection \<open>Notions used in the statements\<close>

text \<open>
  The registry invariant: a name is in neither dictionary, or it has a non-empty history
  whose sum is its total.
\<close>

definition consistent :: "Timers \<Rightarrow> bool" where
  "consistent r \<longleftrightarrow>
     (\<forall>n. (timers_data r n = None \<and> timers_timings r n = None) \<or>
          (\<exists>h. h \<noteq> [] \<and> timers_timings r n = Some h \<and> timers_data r n = Some (sum_py h)))"

text \<open>All seven statistics raise \<open>KeyError(name)\<close>.\<close>

definition all_queries_fail :: "string \<Rightarrow> Timers \<Rightarrow> bool" where
  "all_queries_fail n r \<longleftrightarrow>
     Timers_count n r = Inl (KeyError n) \<and>
     Timers_total n r = Inl (KeyError n) \<and>
     Timers_min n r = Inl (KeyError n) \<and>
     Timers_max n r = Inl (KeyError n) \<and>
     Timers_mean n r = Inl (KeyError n) \<and>
     Timers_median n r = Inl (KeyError n) \<and>
     Timers_stdev n r = Inl (KeyError n)"

text \<open>
  A median of a sequence, independently of how it is computed: at least half of the
  values are at most \<open>m\<close> and at least half are at least \<open>m\<close>.
\<close>

definition is_median :: "real \<Rightarrow> real list \<Rightarrow> bool" where
  "is_median m xs \<longleftrightarrow>
     length xs \<le> 2 * length (filter (\<lambda>x. x \<le> m) xs) \<and>
     length xs \<le> 2 * length (filter (\<lambda>x. m \<le> x) xs)"

subsection \<open>Concrete inputs\<close>

text \<open>
  A registry with a name whose history is empty; \<open>add\<close> never produces one, reading
  \<open>_timings[name]\<close> from outside does.
\<close>

definition empty_history :: Timers where
  "empty_history = \<lparr>timers_data = Map.empty, timers_timings = [''x'' \<mapsto> []]\<rparr>"

text \<open>
  Formatting that returns a template as it is, which is what \<open>str.format\<close> does on a
  template without replacement fields. The timers below have a callable \<open>text\<close> or no
  logger, so their runs do not reach it.
\<close>

definition plain_format :: pyfmt where
  "plain_format = \<lparr>str_format = (\<lambda>s x a. Inr s), float_str = (\<lambda>x. [])\<rparr>"

definition say_done :: "real \<Rightarrow> error + string" where
  "say_done x = Inr ''done''"

definition failing_text :: "real \<Rightarrow> error + string" where
  "failing_text x = Inl (Raised ''format failed'')"

definition quiet_sink :: sink where
  "quiet_sink = \<lparr>sink_repr = ''<built-in function print>'', sink_call = (\<lambda>s. None)\<rparr>"

definition failing_sink :: sink where
  "failing_sink =
     \<lparr>sink_repr = ''<function fail>'', sink_call = (\<lambda>s. Some (Raised ''sink failed''))\<rparr>"

text \<open>A timer constructed and started at clock reading 0.\<close>

definition started :: "string option \<Rightarrow> text_spec \<Rightarrow> sink option \<Rightarrow> Timer" where
  "started name text lg = snd (Timer_start 0 (Timer_init name text lg False))"

section \<open>Properties of the registry\<close>

lemma sum_py_snoc: "sum_py (xs @ [x]) = sum_py xs + x"
  by (simp add: sum_py_def)

lemma sum_py_single: "sum_py [x] = x"
  by (simp add: sum_py_def)

lemma sum_py_sum_list: "sum_py xs = sum_list xs"
proof -
  have "foldl (+) a xs = a + sum_list xs" for a :: real
    by (induction xs arbitrary: a) simp_all
  then show ?thesis by (simp add: sum_py_def)
qed

lemma data_add:
  "timers_data (Timers_add name val r) =
     (timers_data r)(name \<mapsto> (case timers_data r name of None \<Rightarrow> 0 | Some t \<Rightarrow> t) + val)"
  by (cases "timers_data r name") (simp_all add: Timers_add_def)

lemma timings_add:
  "timers_timings (Timers_add name val r) =
     (timers_timings r)
       (name \<mapsto> (case timers_timings r name of None \<Rightarrow> [] | Some vs \<Rightarrow> vs) @ [val])"
  by (simp add: Timers_add_def Let_def)

lemma consistent_init: "consistent Timers_init"
  by (simp add: consistent_def Timers_init_def)

lemma consistent_clear: "consistent (Timers_clear r)"
  by (simp add: consistent_def Timers_clear_def)

lemma consistent_add:
  assumes "consistent r"
  shows "consistent (Timers_add name val r)"
  unfolding consistent_def
proof
  fix n
  have c: "(timers_data r k = None \<and> timers_timings r k = None) \<or>
          (\<exists>h. h \<noteq> [] \<and> timers_timings r k = Some h \<and> timers_data r k = Some (sum_py h))"
    for k
    using assms unfolding consistent_def by blast
  show "(timers_data (Timers_add name val r) n = None \<and>
         timers_timings (Timers_add name val r) n = None) \<or>
        (\<exists>h. h \<noteq> [] \<and> timers_timings (Timers_add name val r) n = Some h \<and>
             timers_data (Timers_add name val r) n = Some (sum_py h))"
  proof (cases "n = name")
    case False
    then show ?thesis using c [of n] by (simp add: data_add timings_add)
  next
    case True
    from c [of name] show ?thesis
    proof
      assume "timers_data r name = None \<and> timers_timings r name = None"
      then show ?thesis using True by (simp add: data_add timings_add sum_py_single)
    next
      assume "\<exists>h. h \<noteq> [] \<and> timers_timings r name = Some h \<and>
                  timers_data r name = Some (sum_py h)"
      then obtain h where "timers_timings r name = Some h" "timers_data r name = Some (sum_py h)"
        by blast
      then show ?thesis using True by (simp add: data_add timings_add sum_py_snoc)
    qed
  qed
qed

lemma consistent_foldl: "consistent r \<Longrightarrow> consistent (foldl step r ops)"
proof (induction ops arbitrary: r)
  case Nil
  then show ?case by simp
next
  case (Cons x xs)
  have "consistent (step r x)"
    using Cons.prems by (cases x) (simp_all add: consistent_add consistent_clear)
  then show ?case using Cons.IH by simp
qed

lemma consistent_run: "consistent (run ops)"
  unfolding run_def by (rule consistent_foldl [OF consistent_init])

text \<open>
  C1. In every registry state reached from the empty registry by add and clear
  operations, a name present in either dictionary is present in both, its total is the
  sum of its recorded values, and at least one value is recorded for it.
\<close>

theorem totals_match_history:
  assumes "n \<in> dom (timers_data (run ops)) \<union> dom (timers_timings (run ops))"
  shows "\<exists>t h. timers_data (run ops) n = Some t \<and> timers_timings (run ops) n = Some h
           \<and> t = sum_py h \<and> 1 \<le> length h"
proof -
  have "(timers_data (run ops) n = None \<and> timers_timings (run ops) n = None) \<or>
        (\<exists>h. h \<noteq> [] \<and> timers_timings (run ops) n = Some h \<and>
             timers_data (run ops) n = Some (sum_py h))"
    using consistent_run [of ops] unfolding consistent_def by blast
  moreover from assms have
    "\<not> (timers_data (run ops) n = None \<and> timers_timings (run ops) n = None)"
    by (auto simp: domIff)
  ultimately obtain h where h: "h \<noteq> []" "timers_timings (run ops) n = Some h"
    "timers_data (run ops) n = Some (sum_py h)"
    by blast
  from h(1) have "1 \<le> length h" by (cases h) simp_all
  with h show ?thesis by simp
qed

theorem totals_match_history_witness:
  "''a'' \<in> dom (timers_data (run [Add ''a'' 1, Add ''b'' 5, Add ''a'' 2]))
            \<union> dom (timers_timings (run [Add ''a'' 1, Add ''b'' 5, Add ''a'' 2]))
   \<and> (\<exists>t h. timers_data (run [Add ''a'' 1, Add ''b'' 5, Add ''a'' 2]) ''a'' = Some t
          \<and> timers_timings (run [Add ''a'' 1, Add ''b'' 5, Add ''a'' 2]) ''a'' = Some h
          \<and> t = sum_py h \<and> 1 \<le> length h)"
proof -
  have h: "''a'' \<in> dom (timers_data (run [Add ''a'' 1, Add ''b'' 5, Add ''a'' 2]))
            \<union> dom (timers_timings (run [Add ''a'' 1, Add ''b'' 5, Add ''a'' 2]))"
    by (simp add: run_def data_add)
  from h totals_match_history [OF h] show ?thesis by blast
qed

lemma timings_foldl_add:
  "timers_timings (foldl step r (map (Add n) vs)) n =
     (if vs = [] then timers_timings r n
      else Some ((case timers_timings r n of None \<Rightarrow> [] | Some h \<Rightarrow> h) @ vs))"
proof (induction vs arbitrary: r)
  case Nil
  show ?case by simp
next
  case (Cons v vs)
  show ?case by (simp add: Cons.IH timings_add)
qed

text \<open>
  C4. After the calls \<open>add(n, v1)\<close>, ..., \<open>add(n, vk)\<close> on a new registry, with
  \<open>k \<ge> 1\<close>, \<open>total(n)\<close> returns \<open>v1 + ... + vk\<close> and \<open>count(n)\<close> returns \<open>k\<close>.
\<close>

theorem add_sequence_total_count:
  assumes "vs \<noteq> []"
  shows "Timers_total n (run (map (Add n) vs)) = Inr (sum_list vs) \<and>
         Timers_count n (run (map (Add n) vs)) = Inr (length vs)"
proof -
  have "timers_timings (run (map (Add n) vs)) n = Some vs"
    using assms by (simp add: run_def timings_foldl_add Timers_init_def)
  then show ?thesis
    by (simp add: Timers_total_def Timers_count_def Timers_apply_def sum_py_sum_list)
qed

theorem add_sequence_total_count_witness:
  "[2, 3, 5 :: real] \<noteq> [] \<and>
   Timers_total ''x'' (run (map (Add ''x'') [2, 3, 5])) = Inr 10 \<and>
   Timers_count ''x'' (run (map (Add ''x'') [2, 3, 5])) = Inr 3"
proof -
  have h: "[2, 3, 5 :: real] \<noteq> []" by simp
  from add_sequence_total_count [OF h, of "''x''"] show ?thesis by simp
qed

lemma timings_foldl_absent:
  "timers_timings r n = None \<Longrightarrow> \<forall>v. Add n v \<notin> set ops \<Longrightarrow>
   timers_timings (foldl step r ops) n = None"
proof (induction ops arbitrary: r)
  case Nil
  then show ?case by simp
next
  case (Cons x xs)
  have "timers_timings (step r x) n = None"
  proof (cases x)
    case (Add m v)
    with Cons.prems have "m \<noteq> n" by auto
    with Add Cons.prems(1) show ?thesis by (simp add: timings_add)
  next
    case Clear
    then show ?thesis by (simp add: Timers_clear_def)
  qed
  moreover from Cons.prems have "\<forall>v. Add n v \<notin> set xs" by simp
  ultimately show ?case using Cons.IH by simp
qed

lemma absent_all_queries_fail:
  "timers_timings r n = None \<Longrightarrow> all_queries_fail n r"
  by (simp add: all_queries_fail_def Timers_count_def Timers_total_def Timers_min_def
      Timers_max_def Timers_mean_def Timers_median_def Timers_stdev_def Timers_apply_def)

text \<open>
  C5. For a name that no add of the sequence has recorded, each of count, total, min,
  max, mean, median and stdev raises \<open>KeyError\<close>. After \<open>clear()\<close> every query raises
  \<open>KeyError\<close>, for any name and whatever was recorded before, and an add gives the
  registry that the same add gives on a new registry.
\<close>

theorem unknown_timer_queries:
  "((\<forall>v. Add n v \<notin> set ops) \<longrightarrow> all_queries_fail n (run ops)) \<and>
   all_queries_fail m (Timers_clear r) \<and>
   Timers_add k v (Timers_clear r) = Timers_add k v Timers_init"
proof (intro conjI impI)
  assume "\<forall>v. Add n v \<notin> set ops"
  then have "timers_timings (run ops) n = None"
    unfolding run_def by (intro timings_foldl_absent) (simp_all add: Timers_init_def)
  then show "all_queries_fail n (run ops)" by (rule absent_all_queries_fail)
next
  show "all_queries_fail m (Timers_clear r)"
    by (rule absent_all_queries_fail) (simp add: Timers_clear_def)
next
  show "Timers_add k v (Timers_clear r) = Timers_add k v Timers_init"
    by (simp add: Timers_clear_def Timers_init_def)
qed

theorem unknown_timer_queries_witness:
  "(\<forall>v. Add ''y'' v \<notin> set [Add ''x'' 1, Clear, Add ''z'' 2]) \<and>
   all_queries_fail ''y'' (run [Add ''x'' 1, Clear, Add ''z'' 2]) \<and>
   all_queries_fail ''x'' (Timers_clear (run [Add ''x'' 1])) \<and>
   Timers_total ''x'' (Timers_add ''x'' 4 (Timers_clear (run [Add ''x'' 1]))) = Inr 4"
proof -
  have h: "\<forall>v. Add ''y'' v \<notin> set [Add ''x'' 1, Clear, Add ''z'' 2]" by simp
  from unknown_timer_queries [of "''y''" "[Add ''x'' 1, Clear, Add ''z'' 2]" "''x''"
      "run [Add ''x'' 1]" "''x''" 4] h
  show ?thesis
    by (simp add: Timers_total_def Timers_apply_def timings_add Timers_init_def sum_py_def)
qed

lemma min_py_Min: "xs \<noteq> [] \<Longrightarrow> min_py xs = Inr (Min (set xs))"
proof (cases xs)
  case Nil
  assume "xs \<noteq> []"
  with Nil show ?thesis by simp
next
  case (Cons x ys)
  have f: "(\<lambda>m y. if y < m then y else m) = (\<lambda>m y. min y (m::real))"
    by (auto simp: fun_eq_iff min_def)
  have "foldl (\<lambda>m y. min y m) x ys = fold min ys x"
    by (simp add: foldl_conv_fold)
  also have "\<dots> = Min (set (x # ys))"
    by (rule Min.set_eq_fold [symmetric])
  finally show ?thesis using Cons by (simp add: f)
qed

lemma max_py_Max: "xs \<noteq> [] \<Longrightarrow> max_py xs = Inr (Max (set xs))"
proof (cases xs)
  case Nil
  assume "xs \<noteq> []"
  with Nil show ?thesis by simp
next
  case (Cons x ys)
  have f: "(\<lambda>m y. if y > m then y else m) = (\<lambda>m y. max y (m::real))"
    by (auto simp: fun_eq_iff max_def)
  have "foldl (\<lambda>m y. max y m) x ys = fold max ys x"
    by (simp add: foldl_conv_fold)
  also have "\<dots> = Max (set (x # ys))"
    by (rule Max.set_eq_fold [symmetric])
  finally show ?thesis using Cons by (simp add: f)
qed

lemma count_le_sorted:
  fixes s :: "real list"
  assumes "sorted s" "k < length s" "s ! k \<le> v"
  shows "Suc k \<le> length (filter (\<lambda>x. x \<le> v) s)"
proof -
  have "\<forall>x \<in> set (take (Suc k) s). x \<le> v"
  proof
    fix x assume "x \<in> set (take (Suc k) s)"
    then obtain i where i: "i < Suc k" "i < length s" "x = s ! i"
      by (auto simp: in_set_conv_nth)
    with assms have "s ! i \<le> s ! k" by (intro sorted_nth_mono) simp_all
    with i assms(3) show "x \<le> v" by simp
  qed
  then have "filter (\<lambda>x. x \<le> v) (take (Suc k) s) = take (Suc k) s" by simp
  moreover have "filter (\<lambda>x. x \<le> v) s =
      filter (\<lambda>x. x \<le> v) (take (Suc k) s) @ filter (\<lambda>x. x \<le> v) (drop (Suc k) s)"
    by (metis append_take_drop_id filter_append)
  ultimately have "length (filter (\<lambda>x. x \<le> v) s) \<ge> length (take (Suc k) s)"
    by simp
  with assms(2) show ?thesis by simp
qed

lemma count_ge_sorted:
  fixes s :: "real list"
  assumes "sorted s" "k < length s" "v \<le> s ! k"
  shows "length s - k \<le> length (filter (\<lambda>x. v \<le> x) s)"
proof -
  have "\<forall>x \<in> set (drop k s). v \<le> x"
  proof
    fix x assume "x \<in> set (drop k s)"
    then obtain i where i: "i < length s - k" "x = s ! (k + i)"
      by (auto simp: in_set_conv_nth)
    with assms have "s ! k \<le> s ! (k + i)" by (intro sorted_nth_mono) simp_all
    with i assms(3) show "v \<le> x" by simp
  qed
  then have "filter (\<lambda>x. v \<le> x) (drop k s) = drop k s" by simp
  moreover have "filter (\<lambda>x. v \<le> x) s =
      filter (\<lambda>x. v \<le> x) (take k s) @ filter (\<lambda>x. v \<le> x) (drop k s)"
    by (metis append_take_drop_id filter_append)
  ultimately have "length (filter (\<lambda>x. v \<le> x) s) \<ge> length (drop k s)"
    by simp
  then show ?thesis by simp
qed

lemma length_filter_sort:
  "length (filter P (sort xs)) = length (filter P (xs :: real list))"
  by (simp add: filter_sort)

lemma sort_Nil_iff: "sort xs = [] \<longleftrightarrow> xs = []"
  by (metis length_sort length_0_conv)

lemma statistics_median_eq:
  "xs \<noteq> [] \<Longrightarrow>
   statistics_median xs =
     Inr (if length xs mod 2 = 1 then sort xs ! (length xs div 2)
          else (sort xs ! (length xs div 2 - 1) + sort xs ! (length xs div 2)) / 2)"
  by (simp add: statistics_median_def Let_def sort_Nil_iff)

lemma statistics_median_is_median:
  assumes "statistics_median xs = Inr m"
  shows "is_median m xs"
proof -
  define s where "s = sort xs"
  define n where "n = length xs"
  have srt: "sorted s" by (simp add: s_def)
  have len: "length s = n" by (simp add: n_def s_def)
  from assms have ne: "xs \<noteq> []"
    by (auto simp: statistics_median_def)
  then have n0: "n \<noteq> 0" by (simp add: n_def)
  have goal: "n \<le> 2 * length (filter (\<lambda>x. x \<le> m) s) \<and> n \<le> 2 * length (filter (\<lambda>x. m \<le> x) s)"
  proof (cases "n mod 2 = 1")
    case True
    with assms statistics_median_eq [OF ne] have m: "m = s ! (n div 2)"
      by (simp add: s_def n_def)
    have k: "n div 2 < length s" using n0 by (simp add: len)
    from count_le_sorted [OF srt k, of m] m
    have 1: "Suc (n div 2) \<le> length (filter (\<lambda>x. x \<le> m) s)" by simp
    from count_ge_sorted [OF srt k, of m] m
    have 2: "n - n div 2 \<le> length (filter (\<lambda>x. m \<le> x) s)" by (simp add: len)
    from 1 2 True show ?thesis by presburger
  next
    case False
    with assms statistics_median_eq [OF ne]
    have m: "m = (s ! (n div 2 - 1) + s ! (n div 2)) / 2"
      by (simp add: s_def n_def)
    from False n0 have n2: "2 \<le> n" by presburger
    have k1: "n div 2 - 1 < length s" and k2: "n div 2 < length s"
      using n2 by (simp_all add: len)
    have "s ! (n div 2 - 1) \<le> s ! (n div 2)"
      using srt k2 by (intro sorted_nth_mono) simp_all
    with m have lo: "s ! (n div 2 - 1) \<le> m" and hi: "m \<le> s ! (n div 2)" by simp_all
    from count_le_sorted [OF srt k1 lo]
    have 1: "Suc (n div 2 - 1) \<le> length (filter (\<lambda>x. x \<le> m) s)" .
    from count_ge_sorted [OF srt k2 hi]
    have 2: "n - n div 2 \<le> length (filter (\<lambda>x. m \<le> x) s)" by (simp add: len)
    from 1 2 False n2 show ?thesis by presburger
  qed
  then show ?thesis
    unfolding is_median_def s_def n_def by (simp add: length_filter_sort)
qed

text \<open>
  C6. For a name whose history \<open>h\<close> is not empty, min, max, mean and median return the
  least value, the greatest value, the arithmetic mean and a median of \<open>h\<close>. For a
  name whose history is empty they return, without raising, what the same statistic
  gives on the one-element sequence \<open>[0]\<close>, which is 0.
\<close>

theorem stats_on_recorded:
  "(timers_timings r n = Some h \<and> h \<noteq> [] \<longrightarrow>
      Timers_min n r = Inr (Min (set h)) \<and>
      Timers_max n r = Inr (Max (set h)) \<and>
      Timers_mean n r = Inr (sum_list h / real (length h)) \<and>
      (\<exists>m. Timers_median n r = Inr m \<and> statistics_median h = Inr m \<and> is_median m h)) \<and>
   (timers_timings r n = Some [] \<longrightarrow>
      Timers_min n r = min_py [0] \<and> Timers_max n r = max_py [0] \<and>
      Timers_mean n r = statistics_mean [0] \<and> Timers_median n r = statistics_median [0] \<and>
      Timers_min n r = Inr 0 \<and> Timers_max n r = Inr 0 \<and>
      Timers_mean n r = Inr 0 \<and> Timers_median n r = Inr 0)"
proof (intro conjI impI)
  assume a: "timers_timings r n = Some h \<and> h \<noteq> []"
  then have oz: "or_zero h = h" by (simp add: or_zero_def)
  from a oz show "Timers_min n r = Inr (Min (set h))"
    by (simp add: Timers_min_def Timers_apply_def min_py_Min)
  from a oz show "Timers_max n r = Inr (Max (set h))"
    by (simp add: Timers_max_def Timers_apply_def max_py_Max)
  from a oz show "Timers_mean n r = Inr (sum_list h / real (length h))"
    by (simp add: Timers_mean_def Timers_apply_def statistics_mean_def)
  from a statistics_median_eq [of h] obtain m where m: "statistics_median h = Inr m"
    by blast
  with a oz have "Timers_median n r = Inr m"
    by (simp add: Timers_median_def Timers_apply_def)
  with m statistics_median_is_median [OF m]
  show "\<exists>m. Timers_median n r = Inr m \<and> statistics_median h = Inr m \<and> is_median m h"
    by blast
next
  assume a: "timers_timings r n = Some []"
  then show "Timers_min n r = min_py [0]"
    by (simp add: Timers_min_def Timers_apply_def or_zero_def)
  from a show "Timers_max n r = max_py [0]"
    by (simp add: Timers_max_def Timers_apply_def or_zero_def)
  from a show "Timers_mean n r = statistics_mean [0]"
    by (simp add: Timers_mean_def Timers_apply_def or_zero_def)
  from a show "Timers_median n r = statistics_median [0]"
    by (simp add: Timers_median_def Timers_apply_def or_zero_def)
  from a show "Timers_min n r = Inr 0"
    by (simp add: Timers_min_def Timers_apply_def or_zero_def)
  from a show "Timers_max n r = Inr 0"
    by (simp add: Timers_max_def Timers_apply_def or_zero_def)
  from a show "Timers_mean n r = Inr 0"
    by (simp add: Timers_mean_def Timers_apply_def or_zero_def statistics_mean_def)
  from a show "Timers_median n r = Inr 0"
    by (simp add: Timers_median_def Timers_apply_def or_zero_def statistics_median_def)
qed

theorem stats_on_recorded_witness:
  "timers_timings (run [Add ''x'' 3, Add ''x'' 1, Add ''x'' 2]) ''x'' = Some [3, 1, 2] \<and>
   [3, 1, 2 :: real] \<noteq> [] \<and>
   Timers_min ''x'' (run [Add ''x'' 3, Add ''x'' 1, Add ''x'' 2]) = Inr 1 \<and>
   Timers_max ''x'' (run [Add ''x'' 3, Add ''x'' 1, Add ''x'' 2]) = Inr 3 \<and>
   Timers_mean ''x'' (run [Add ''x'' 3, Add ''x'' 1, Add ''x'' 2]) = Inr 2 \<and>
   Timers_median ''x'' (run [Add ''x'' 3, Add ''x'' 1, Add ''x'' 2]) = Inr 2 \<and>
   timers_timings empty_history ''x'' = Some [] \<and>
   Timers_min ''x'' empty_history = Inr 0 \<and>
   Timers_max ''x'' empty_history = Inr 0 \<and>
   Timers_mean ''x'' empty_history = Inr 0 \<and>
   Timers_median ''x'' empty_history = Inr 0"
proof -
  have h1: "timers_timings (run [Add ''x'' 3, Add ''x'' 1, Add ''x'' 2]) ''x'' = Some [3, 1, 2]
            \<and> [3, 1, 2 :: real] \<noteq> []"
    by (simp add: run_def timings_add Timers_init_def)
  have h2: "timers_timings empty_history ''x'' = Some []"
    by (simp add: empty_history_def)
  have med: "statistics_median [3, 1, 2] = Inr 2"
    by (simp add: statistics_median_def)
  from stats_on_recorded [of "run [Add ''x'' 3, Add ''x'' 1, Add ''x'' 2]" "''x''" "[3, 1, 2]"]
    h1 med
  have a: "Timers_min ''x'' (run [Add ''x'' 3, Add ''x'' 1, Add ''x'' 2]) = Inr 1 \<and>
     Timers_max ''x'' (run [Add ''x'' 3, Add ''x'' 1, Add ''x'' 2]) = Inr 3 \<and>
     Timers_mean ''x'' (run [Add ''x'' 3, Add ''x'' 1, Add ''x'' 2]) = Inr 2 \<and>
     Timers_median ''x'' (run [Add ''x'' 3, Add ''x'' 1, Add ''x'' 2]) = Inr 2"
    by auto
  from stats_on_recorded [of empty_history "''x''" "[]"] h2
  have b: "Timers_min ''x'' empty_history = Inr 0 \<and>
     Timers_max ''x'' empty_history = Inr 0 \<and>
     Timers_mean ''x'' empty_history = Inr 0 \<and>
     Timers_median ''x'' empty_history = Inr 0"
    by blast
  from h1 h2 a b show ?thesis by simp
qed

text \<open>
  C7. \<open>stdev(name)\<close> raises \<open>KeyError\<close> when the name has no history, returns
  \<open>math.nan\<close> when fewer than two values are recorded, and otherwise returns the
  sample standard deviation of the recorded values: the square root of the sum of the
  squared deviations from the mean, divided by the number of values less one.
\<close>

theorem stdev_cases:
  "(timers_timings r n = None \<longrightarrow> Timers_stdev n r = Inl (KeyError n)) \<and>
   (timers_timings r n = Some h \<and> length h < 2 \<longrightarrow> Timers_stdev n r = Inr NaN) \<and>
   (timers_timings r n = Some h \<and> 2 \<le> length h \<longrightarrow>
      Timers_stdev n r =
        Inr (Fin (sqrt (sum_list (map (\<lambda>x. (x - sum_list h / real (length h)) ^ 2) h)
                        / real (length h - 1)))))"
  by (simp add: Timers_stdev_def statistics_stdev_def Let_def)

theorem stdev_cases_witness:
  "timers_timings (run [Add ''y'' 7]) ''x'' = None \<and>
   Timers_stdev ''x'' (run [Add ''y'' 7]) = Inl (KeyError ''x'') \<and>
   timers_timings (run [Add ''y'' 7]) ''y'' = Some [7] \<and> length [7 :: real] < 2 \<and>
   Timers_stdev ''y'' (run [Add ''y'' 7]) = Inr NaN \<and>
   timers_timings (run [Add ''x'' 1, Add ''x'' 3]) ''x'' = Some [1, 3] \<and>
   2 \<le> length [1, 3 :: real] \<and>
   Timers_stdev ''x'' (run [Add ''x'' 1, Add ''x'' 3]) = Inr (Fin (sqrt 2))"
proof -
  have h1: "timers_timings (run [Add ''y'' 7]) ''x'' = None"
    by (simp add: run_def timings_add Timers_init_def)
  have h2: "timers_timings (run [Add ''y'' 7]) ''y'' = Some [7] \<and> length [7 :: real] < 2"
    by (simp add: run_def timings_add Timers_init_def)
  have h3: "timers_timings (run [Add ''x'' 1, Add ''x'' 3]) ''x'' = Some [1, 3] \<and>
            2 \<le> length [1, 3 :: real]"
    by (simp add: run_def timings_add Timers_init_def)
  from stdev_cases [of "run [Add ''y'' 7]" "''x''"] h1
  have a: "Timers_stdev ''x'' (run [Add ''y'' 7]) = Inl (KeyError ''x'')" by simp
  from stdev_cases [of "run [Add ''y'' 7]" "''y''" "[7]"] h2
  have b: "Timers_stdev ''y'' (run [Add ''y'' 7]) = Inr NaN" by simp
  from stdev_cases [of "run [Add ''x'' 1, Add ''x'' 3]" "''x''" "[1, 3]"] h3
  have c: "Timers_stdev ''x'' (run [Add ''x'' 1, Add ''x'' 3]) = Inr (Fin (sqrt 2))"
    by (simp add: power2_eq_square)
  from h1 h2 h3 a b c show ?thesis by simp
qed

text \<open>
  C8. In every registry state and for every name and value, the item assignment
  \<open>timers[name] = value\<close> raises \<open>TypeError\<close> and leaves the totals and the histories
  as they were.
\<close>

theorem setitem_rejected:
  "fst (Timers_setitem n v r) = Inl TypeError \<and>
   timers_data (snd (Timers_setitem n v r)) = timers_data r \<and>
   timers_timings (snd (Timers_setitem n v r)) = timers_timings r"
  by (simp add: Timers_setitem_def)

section \<open>Properties of the timer\<close>

lemma render_update [simp]:
  "render py (t\<lparr>timer_last := a, timer_start_time := b\<rparr>) e = render py t e"
  by (cases "timer_text t") (simp_all add: render_def get_logger_level_def)

lemmas stop_parts = stop_result_def stop_timer_def stop_registry_def stop_calls_def

lemmas started_simps = started_def Timer_start_def Timer_init_def

lemma get_logger_level_example:
  "get_logger_level (Timer_init None (Template default_text)
     (Some \<lparr>sink_repr = ''<bound method Logger.debug of <Logger pbp_timer (WARNING)>>'',
            sink_call = (\<lambda>s. None)\<rparr>) False) = ''WARNING''"
  by (simp add: get_logger_level_def format_logger_def split_py_def Timer_init_def)

text \<open>
  C3. \<open>start()\<close> on a running timer raises \<open>TimerError\<close> and leaves the timer as it
  was; \<open>stop()\<close> on an idle timer raises \<open>TimerError\<close> and leaves the timer, the
  registry and the callback untouched. In both cases \<open>last\<close> keeps its value, being a
  field of the unchanged timer.
\<close>

theorem illegal_transitions:
  "(timer_start_time t \<noteq> None \<longrightarrow>
      Timer_start now t = (Inl (TimerError ''Timer is running. Use .stop() to stop it''), t)) \<and>
   (timer_start_time t = None \<longrightarrow>
      Timer_stop py now' t reg calls =
        (Inl (TimerError ''Timer is not running. Use .start() to start it''), t, reg, calls))"
  by (simp add: Timer_start_def Timer_stop_def)

theorem illegal_transitions_witness:
  "timer_start_time (started (Some ''x'') (Function say_done) None) \<noteq> None \<and>
   Timer_start 5 (started (Some ''x'') (Function say_done) None) =
     (Inl (TimerError ''Timer is running. Use .stop() to stop it''),
      started (Some ''x'') (Function say_done) None) \<and>
   timer_start_time (Timer_init (Some ''x'') (Function say_done) None False) = None \<and>
   Timer_stop plain_format 5 (Timer_init (Some ''x'') (Function say_done) None False)
       (run [Add ''x'' 1]) [] =
     (Inl (TimerError ''Timer is not running. Use .start() to start it''),
      Timer_init (Some ''x'') (Function say_done) None False, run [Add ''x'' 1], [])"
proof -
  have h1: "timer_start_time (started (Some ''x'') (Function say_done) None) \<noteq> None"
    by (simp add: started_simps)
  have h2: "timer_start_time (Timer_init (Some ''x'') (Function say_done) None False) = None"
    by (simp add: Timer_init_def)
  from illegal_transitions [of "started (Some ''x'') (Function say_done) None" 5] h1
  have a: "Timer_start 5 (started (Some ''x'') (Function say_done) None) =
     (Inl (TimerError ''Timer is running. Use .stop() to stop it''),
      started (Some ''x'') (Function say_done) None)"
    by blast
  from illegal_transitions [of "Timer_init (Some ''x'') (Function say_done) None False"
      _ plain_format 5 "run [Add ''x'' 1]" "[]"] h2
  have b: "Timer_stop plain_format 5 (Timer_init (Some ''x'') (Function say_done) None False)
       (run [Add ''x'' 1]) [] =
     (Inl (TimerError ''Timer is not running. Use .start() to start it''),
      Timer_init (Some ''x'') (Function say_done) None False, run [Add ''x'' 1], [])"
    by blast
  from h1 h2 a b show ?thesis by blast
qed

text \<open>
  C2, as stated, fails in two ways. A running timer whose name is the empty string
  stops successfully and forwards nothing: the registry still has no entry for the
  name, where an add would have recorded one. A running timer whose callback raises
  does not stop successfully: the exception of the callback leaves \<open>stop\<close>.
\<close>

theorem stop_claim_counterexample:
  "timer_start_time (started (Some []) (Function say_done) None) = Some 0 \<and>
   timer_name (started (Some []) (Function say_done) None) = Some [] \<and>
   stop_result (Timer_stop plain_format 1 (started (Some []) (Function say_done) None)
      Timers_init []) = Inr 1 \<and>
   Timers_count [] (stop_registry (Timer_stop plain_format 1
      (started (Some []) (Function say_done) None) Timers_init [])) = Inl (KeyError []) \<and>
   Timers_count [] (Timers_add [] 1 Timers_init) = Inr 1 \<and>
   timer_start_time (started (Some ''x'') (Function say_done) (Some failing_sink)) = Some 0 \<and>
   stop_result (Timer_stop plain_format 1
      (started (Some ''x'') (Function say_done) (Some failing_sink)) Timers_init [])
     = Inl (Raised ''sink failed'')"
  by (simp add: started_simps Timer_stop_def report_def render_def stop_parts say_done_def
      failing_sink_def Timers_count_def Timers_apply_def timings_add Timers_init_def)

text \<open>
  C2, amended. When the timer is running and the report does not raise (there is no
  logger, or the formatting returns a string and the callback returns), \<open>stop\<close>
  returns the elapsed time, stores it in \<open>last\<close>, clears the start time and changes
  no other field, calls the callback exactly once with the formatted string when there
  is a logger and not at all when there is none, and forwards the name and the elapsed
  time to the registry by add when the name is set and is not the empty string.
\<close>

theorem stop_running:
  assumes "timer_start_time t = Some st"
    and "timer_logger t = None \<or>
         (\<exists>lg s. timer_logger t = Some lg \<and> render py t (now - st) = Inr s \<and>
                 sink_call lg s = None)"
  shows "stop_result (Timer_stop py now t reg calls) = Inr (now - st) \<and>
         stop_timer (Timer_stop py now t reg calls) =
           t\<lparr>timer_last := Fin (now - st), timer_start_time := None\<rparr> \<and>
         timer_last (stop_timer (Timer_stop py now t reg calls)) = Fin (now - st) \<and>
         timer_start_time (stop_timer (Timer_stop py now t reg calls)) = None \<and>
         (timer_logger t = None \<longrightarrow> stop_calls (Timer_stop py now t reg calls) = calls) \<and>
         (timer_logger t \<noteq> None \<longrightarrow>
            (\<exists>s. render py t (now - st) = Inr s \<and>
                 stop_calls (Timer_stop py now t reg calls) = calls @ [s])) \<and>
         (\<forall>n. timer_name t = Some n \<and> n \<noteq> [] \<longrightarrow>
            stop_registry (Timer_stop py now t reg calls) = Timers_add n (now - st) reg)"
  using assms(2)
proof
  assume "timer_logger t = None"
  with assms(1) show ?thesis
    by (simp add: Timer_stop_def report_def stop_parts Let_def)
next
  assume "\<exists>lg s. timer_logger t = Some lg \<and> render py t (now - st) = Inr s \<and>
                 sink_call lg s = None"
  then obtain lg s where "timer_logger t = Some lg" "render py t (now - st) = Inr s"
    "sink_call lg s = None" by blast
  with assms(1) show ?thesis
    by (simp add: Timer_stop_def report_def stop_parts Let_def)
qed

theorem stop_running_witness:
  "timer_start_time (started (Some ''x'') (Function say_done) (Some quiet_sink)) = Some 0 \<and>
   timer_logger (started (Some ''x'') (Function say_done) (Some quiet_sink)) = Some quiet_sink \<and>
   render plain_format (started (Some ''x'') (Function say_done) (Some quiet_sink)) (3 / 2 - 0)
     = Inr ''done'' \<and>
   sink_call quiet_sink ''done'' = None \<and>
   stop_result (Timer_stop plain_format (3 / 2)
      (started (Some ''x'') (Function say_done) (Some quiet_sink))
      (run [Add ''x'' 1]) [''earlier'']) = Inr (3 / 2) \<and>
   timer_last (stop_timer (Timer_stop plain_format (3 / 2)
      (started (Some ''x'') (Function say_done) (Some quiet_sink))
      (run [Add ''x'' 1]) [''earlier''])) = Fin (3 / 2) \<and>
   timer_start_time (stop_timer (Timer_stop plain_format (3 / 2)
      (started (Some ''x'') (Function say_done) (Some quiet_sink))
      (run [Add ''x'' 1]) [''earlier''])) = None \<and>
   stop_calls (Timer_stop plain_format (3 / 2)
      (started (Some ''x'') (Function say_done) (Some quiet_sink))
      (run [Add ''x'' 1]) [''earlier'']) = [''earlier'', ''done''] \<and>
   stop_registry (Timer_stop plain_format (3 / 2)
      (started (Some ''x'') (Function say_done) (Some quiet_sink))
      (run [Add ''x'' 1]) [''earlier'']) = run [Add ''x'' 1, Add ''x'' (3 / 2)] \<and>
   timer_start_time (started (Some ''x'') (Function say_done) None) = Some 0 \<and>
   timer_logger (started (Some ''x'') (Function say_done) None) = None \<and>
   stop_result (Timer_stop plain_format (3 / 2)
      (started (Some ''x'') (Function say_done) None) (run [Add ''x'' 1]) [''earlier''])
     = Inr (3 / 2) \<and>
   stop_calls (Timer_stop plain_format (3 / 2)
      (started (Some ''x'') (Function say_done) None) (run [Add ''x'' 1]) [''earlier''])
     = [''earlier'']"
proof -
  let ?t = "started (Some ''x'') (Function say_done) (Some quiet_sink)"
  let ?u = "started (Some ''x'') (Function say_done) None"
  have u1: "timer_start_time ?u = Some 0"
    by (simp add: started_simps)
  have u2: "timer_logger ?u = None"
    by (simp add: started_simps)
  from u2 have u3: "timer_logger ?u = None \<or>
         (\<exists>lg s. timer_logger ?u = Some lg \<and> render plain_format ?u (3 / 2 - 0) = Inr s \<and>
                 sink_call lg s = None)"
    by blast
  from stop_running [OF u1 u3, of "run [Add ''x'' 1]" "[''earlier'']"] u2
  have u: "stop_result (Timer_stop plain_format (3 / 2) ?u (run [Add ''x'' 1]) [''earlier''])
          = Inr (3 / 2) \<and>
        stop_calls (Timer_stop plain_format (3 / 2) ?u (run [Add ''x'' 1]) [''earlier''])
          = [''earlier'']"
    by simp
  have h1: "timer_start_time ?t = Some 0"
    by (simp add: started_simps)
  have lg: "timer_logger ?t = Some quiet_sink"
    by (simp add: started_simps)
  have rn: "render plain_format ?t (3 / 2 - 0) = Inr ''done''"
    by (simp add: render_def started_simps say_done_def)
  have sc: "sink_call quiet_sink ''done'' = None"
    by (simp add: quiet_sink_def)
  have nm: "timer_name ?t = Some ''x''"
    by (simp add: started_simps)
  have h2: "timer_logger ?t = None \<or>
         (\<exists>lg s. timer_logger ?t = Some lg \<and> render plain_format ?t (3 / 2 - 0) = Inr s \<and>
                 sink_call lg s = None)"
    using lg rn sc by blast
  have rg: "Timers_add ''x'' (3 / 2) (run [Add ''x'' 1]) = run [Add ''x'' 1, Add ''x'' (3 / 2)]"
    by (simp add: run_def)
  from stop_running [OF h1 h2, of "run [Add ''x'' 1]" "[''earlier'']"] lg rn nm rg
  have "stop_result (Timer_stop plain_format (3 / 2) ?t (run [Add ''x'' 1]) [''earlier''])
          = Inr (3 / 2) \<and>
        timer_last (stop_timer (Timer_stop plain_format (3 / 2) ?t (run [Add ''x'' 1])
          [''earlier''])) = Fin (3 / 2) \<and>
        timer_start_time (stop_timer (Timer_stop plain_format (3 / 2) ?t (run [Add ''x'' 1])
          [''earlier''])) = None \<and>
        stop_calls (Timer_stop plain_format (3 / 2) ?t (run [Add ''x'' 1]) [''earlier''])
          = [''earlier'', ''done''] \<and>
        stop_registry (Timer_stop plain_format (3 / 2) ?t (run [Add ''x'' 1]) [''earlier''])
          = run [Add ''x'' 1, Add ''x'' (3 / 2)]"
    by simp
  with h1 lg rn sc u u1 u2 show ?thesis by blast
qed

text \<open>
  C10. A timer whose name is the empty string never forwards to the registry:
  whatever \<open>stop\<close> returns or raises, the registry is the one before the call.
\<close>

theorem empty_name_not_forwarded:
  assumes "timer_name t = Some []"
  shows "stop_registry (Timer_stop py now t reg calls) = reg"
proof (cases "timer_start_time t")
  case None
  then show ?thesis by (simp add: Timer_stop_def stop_parts)
next
  case (Some st)
  obtain e c where r: "report py (t\<lparr>timer_last := Fin (now - st), timer_start_time := None\<rparr>)
      (now - st) calls = (e, c)"
    by (cases "report py (t\<lparr>timer_last := Fin (now - st), timer_start_time := None\<rparr>)
      (now - st) calls") blast
  show ?thesis
  proof (cases e)
    case None
    with Some r assms show ?thesis by (simp add: Timer_stop_def stop_parts Let_def)
  next
    case (Some a)
    with \<open>timer_start_time t = Some st\<close> r show ?thesis
      by (simp add: Timer_stop_def stop_parts Let_def)
  qed
qed

theorem empty_name_not_forwarded_witness:
  "timer_name (started (Some []) (Function say_done) (Some quiet_sink)) = Some [] \<and>
   stop_result (Timer_stop plain_format 2
      (started (Some []) (Function say_done) (Some quiet_sink)) (run [Add ''x'' 1]) [])
     = Inr 2 \<and>
   stop_registry (Timer_stop plain_format 2
      (started (Some []) (Function say_done) (Some quiet_sink)) (run [Add ''x'' 1]) [])
     = run [Add ''x'' 1]"
proof -
  have h: "timer_name (started (Some []) (Function say_done) (Some quiet_sink)) = Some []"
    by (simp add: started_simps)
  have s: "stop_result (Timer_stop plain_format 2
      (started (Some []) (Function say_done) (Some quiet_sink)) (run [Add ''x'' 1]) [])
     = Inr 2"
    by (simp add: started_simps Timer_stop_def report_def render_def stop_parts say_done_def
        quiet_sink_def)
  from h s empty_name_not_forwarded [OF h, of plain_format 2 "run [Add ''x'' 1]" "[]"]
  show ?thesis by blast
qed

text \<open>
  C9, as stated, fails: when the callback raises, and likewise when the callable
  \<open>text\<close> raises, \<open>stop\<close> has already stored the elapsed time in \<open>last\<close> and
  cleared the start time.
\<close>

theorem stop_atomicity_counterexample:
  "timer_start_time (started (Some ''x'') (Function say_done) (Some failing_sink)) = Some 0 \<and>
   timer_last (started (Some ''x'') (Function say_done) (Some failing_sink)) = NaN \<and>
   stop_result (Timer_stop plain_format 1
      (started (Some ''x'') (Function say_done) (Some failing_sink)) Timers_init [])
     = Inl (Raised ''sink failed'') \<and>
   timer_start_time (stop_timer (Timer_stop plain_format 1
      (started (Some ''x'') (Function say_done) (Some failing_sink)) Timers_init [])) = None \<and>
   timer_last (stop_timer (Timer_stop plain_format 1
      (started (Some ''x'') (Function say_done) (Some failing_sink)) Timers_init [])) = Fin 1 \<and>
   timer_start_time (started (Some ''x'') (Function failing_text) (Some quiet_sink)) = Some 0 \<and>
   timer_last (started (Some ''x'') (Function failing_text) (Some quiet_sink)) = NaN \<and>
   stop_result (Timer_stop plain_format 1
      (started (Some ''x'') (Function failing_text) (Some quiet_sink)) Timers_init [])
     = Inl (Raised ''format failed'') \<and>
   timer_start_time (stop_timer (Timer_stop plain_format 1
      (started (Some ''x'') (Function failing_text) (Some quiet_sink)) Timers_init [])) = None \<and>
   timer_last (stop_timer (Timer_stop plain_format 1
      (started (Some ''x'') (Function failing_text) (Some quiet_sink)) Timers_init [])) = Fin 1"
  by (simp add: started_simps Timer_stop_def report_def render_def stop_parts say_done_def
      failing_text_def failing_sink_def quiet_sink_def)

text \<open>
  C9, amended. A \<open>stop\<close> that raises leaves the shared registry unchanged. When it
  raises because the timer is not running, the timer and the callback are untouched as
  well; when it raises later, in the formatting or in the callback, the timer is idle
  and \<open>last\<close> holds the elapsed time. A \<open>start\<close> that raises leaves the timer
  unchanged. An add appends the value to the history of the name and adds it to the
  total of the name together, and changes no other name.
\<close>

theorem failure_effects:
  "(stop_result (Timer_stop py now t reg calls) = Inl e \<longrightarrow>
      stop_registry (Timer_stop py now t reg calls) = reg \<and>
      (timer_start_time t = None \<longrightarrow>
         stop_timer (Timer_stop py now t reg calls) = t \<and>
         stop_calls (Timer_stop py now t reg calls) = calls) \<and>
      (\<forall>st. timer_start_time t = Some st \<longrightarrow>
         stop_timer (Timer_stop py now t reg calls) =
           t\<lparr>timer_last := Fin (now - st), timer_start_time := None\<rparr>)) \<and>
   (fst (Timer_start now t) = Inl e' \<longrightarrow> snd (Timer_start now t) = t) \<and>
   timers_timings (Timers_add n v r) n =
     Some ((case timers_timings r n of None \<Rightarrow> [] | Some h \<Rightarrow> h) @ [v]) \<and>
   timers_data (Timers_add n v r) n =
     Some ((case timers_data r n of None \<Rightarrow> 0 | Some x \<Rightarrow> x) + v) \<and>
   (\<forall>m. m \<noteq> n \<longrightarrow> timers_timings (Timers_add n v r) m = timers_timings r m \<and>
                  timers_data (Timers_add n v r) m = timers_data r m)"
proof (intro conjI impI allI)
  assume f: "stop_result (Timer_stop py now t reg calls) = Inl e"
  show "stop_registry (Timer_stop py now t reg calls) = reg"
  proof (cases "timer_start_time t")
    case None
    then show ?thesis by (simp add: Timer_stop_def stop_parts)
  next
    case (Some st)
    obtain x c where r: "report py (t\<lparr>timer_last := Fin (now - st), timer_start_time := None\<rparr>)
        (now - st) calls = (x, c)"
      by (cases "report py (t\<lparr>timer_last := Fin (now - st), timer_start_time := None\<rparr>)
        (now - st) calls") blast
    with f Some show ?thesis
      by (cases x) (simp_all add: Timer_stop_def stop_parts Let_def)
  qed
next
  assume "timer_start_time t = None"
  then show "stop_timer (Timer_stop py now t reg calls) = t"
    by (simp add: Timer_stop_def stop_parts)
next
  assume "timer_start_time t = None"
  then show "stop_calls (Timer_stop py now t reg calls) = calls"
    by (simp add: Timer_stop_def stop_parts)
next
  fix st
  assume s: "timer_start_time t = Some st"
  obtain x c where r: "report py (t\<lparr>timer_last := Fin (now - st), timer_start_time := None\<rparr>)
      (now - st) calls = (x, c)"
    by (cases "report py (t\<lparr>timer_last := Fin (now - st), timer_start_time := None\<rparr>)
      (now - st) calls") blast
  with s show "stop_timer (Timer_stop py now t reg calls) =
      t\<lparr>timer_last := Fin (now - st), timer_start_time := None\<rparr>"
    by (cases x) (simp_all add: Timer_stop_def stop_parts Let_def)
next
  assume "fst (Timer_start now t) = Inl e'"
  then show "snd (Timer_start now t) = t"
    by (simp add: Timer_start_def split: if_splits)
next
  show "timers_timings (Timers_add n v r) n =
     Some ((case timers_timings r n of None \<Rightarrow> [] | Some h \<Rightarrow> h) @ [v])"
    by (simp add: timings_add)
next
  show "timers_data (Timers_add n v r) n =
     Some ((case timers_data r n of None \<Rightarrow> 0 | Some x \<Rightarrow> x) + v)"
    by (simp add: data_add)
next
  fix m assume "m \<noteq> n"
  then show "timers_timings (Timers_add n v r) m = timers_timings r m"
    by (simp add: timings_add)
next
  fix m assume "m \<noteq> n"
  then show "timers_data (Timers_add n v r) m = timers_data r m"
    by (simp add: data_add)
qed

theorem failure_effects_witness:
  "stop_result (Timer_stop plain_format 1
      (started (Some ''x'') (Function say_done) (Some failing_sink)) (run [Add ''x'' 1]) [])
     = Inl (Raised ''sink failed'') \<and>
   timer_start_time (started (Some ''x'') (Function say_done) (Some failing_sink)) = Some 0 \<and>
   stop_registry (Timer_stop plain_format 1
      (started (Some ''x'') (Function say_done) (Some failing_sink)) (run [Add ''x'' 1]) [])
     = run [Add ''x'' 1] \<and>
   stop_timer (Timer_stop plain_format 1
      (started (Some ''x'') (Function say_done) (Some failing_sink)) (run [Add ''x'' 1]) [])
     = (started (Some ''x'') (Function say_done) (Some failing_sink))
         \<lparr>timer_last := Fin (1 - 0), timer_start_time := None\<rparr> \<and>
   stop_result (Timer_stop plain_format 1
      (Timer_init (Some ''x'') (Function say_done) None False) (run [Add ''x'' 1]) [])
     = Inl (TimerError ''Timer is not running. Use .start() to start it'') \<and>
   timer_start_time (Timer_init (Some ''x'') (Function say_done) None False) = None \<and>
   stop_timer (Timer_stop plain_format 1
      (Timer_init (Some ''x'') (Function say_done) None False) (run [Add ''x'' 1]) [])
     = Timer_init (Some ''x'') (Function say_done) None False \<and>
   stop_calls (Timer_stop plain_format 1
      (Timer_init (Some ''x'') (Function say_done) None False) (run [Add ''x'' 1]) [])
     = [] \<and>
   fst (Timer_start 1 (started (Some ''x'') (Function say_done) (Some failing_sink)))
     = Inl (TimerError ''Timer is running. Use .stop() to stop it'') \<and>
   snd (Timer_start 1 (started (Some ''x'') (Function say_done) (Some failing_sink)))
     = started (Some ''x'') (Function say_done) (Some failing_sink) \<and>
   ''y'' \<noteq> ''x'' \<and>
   timers_timings (Timers_add ''x'' 2 (run [Add ''x'' 1, Add ''y'' 4])) ''x'' = Some [1, 2] \<and>
   timers_data (Timers_add ''x'' 2 (run [Add ''x'' 1, Add ''y'' 4])) ''x'' = Some 3 \<and>
   timers_timings (Timers_add ''x'' 2 (run [Add ''x'' 1, Add ''y'' 4])) ''y'' = Some [4] \<and>
   timers_data (Timers_add ''x'' 2 (run [Add ''x'' 1, Add ''y'' 4])) ''y'' = Some 4"
proof -
  let ?t = "started (Some ''x'') (Function say_done) (Some failing_sink)"
  let ?i = "Timer_init (Some ''x'') (Function say_done) None False"
  let ?r = "run [Add ''x'' 1, Add ''y'' 4]"
  have h1: "stop_result (Timer_stop plain_format 1 ?t (run [Add ''x'' 1]) [])
      = Inl (Raised ''sink failed'')"
    by (simp add: started_simps Timer_stop_def report_def render_def stop_parts say_done_def
        failing_sink_def)
  have h2: "timer_start_time ?t = Some 0"
    by (simp add: started_simps)
  have h3: "stop_result (Timer_stop plain_format 1 ?i (run [Add ''x'' 1]) [])
      = Inl (TimerError ''Timer is not running. Use .start() to start it'')"
    by (simp add: Timer_init_def Timer_stop_def stop_parts)
  have h4: "timer_start_time ?i = None"
    by (simp add: Timer_init_def)
  have h5: "fst (Timer_start 1 ?t) = Inl (TimerError ''Timer is running. Use .stop() to stop it'')"
    by (simp add: started_simps)
  have h6: "''y'' \<noteq> ''x''" by simp
  have r1: "timers_timings ?r ''x'' = Some [1]" "timers_data ?r ''x'' = Some 1"
    "timers_timings ?r ''y'' = Some [4]" "timers_data ?r ''y'' = Some 4"
    by (simp_all add: run_def timings_add data_add Timers_init_def)
  from failure_effects [where py = plain_format and now = 1 and t = ?t
      and reg = "run [Add ''x'' 1]" and calls = "[]" and e = "Raised ''sink failed''"
      and e' = "TimerError ''Timer is running. Use .stop() to stop it''"
      and n = "''x''" and v = 2 and r = ?r] h1 h2 h5 h6 r1
  have a: "stop_registry (Timer_stop plain_format 1 ?t (run [Add ''x'' 1]) [])
        = run [Add ''x'' 1] \<and>
      stop_timer (Timer_stop plain_format 1 ?t (run [Add ''x'' 1]) [])
        = ?t\<lparr>timer_last := Fin (1 - 0), timer_start_time := None\<rparr> \<and>
      snd (Timer_start 1 ?t) = ?t \<and>
      timers_timings (Timers_add ''x'' 2 ?r) ''x'' = Some [1, 2] \<and>
      timers_data (Timers_add ''x'' 2 ?r) ''x'' = Some 3 \<and>
      timers_timings (Timers_add ''x'' 2 ?r) ''y'' = Some [4] \<and>
      timers_data (Timers_add ''x'' 2 ?r) ''y'' = Some 4"
    by simp
  from failure_effects [where py = plain_format and now = 1 and t = ?i
      and reg = "run [Add ''x'' 1]" and calls = "[]"
      and e = "TimerError ''Timer is not running. Use .start() to start it''"] h3 h4
  have b: "stop_timer (Timer_stop plain_format 1 ?i (run [Add ''x'' 1]) []) = ?i \<and>
      stop_calls (Timer_stop plain_format 1 ?i (run [Add ''x'' 1]) []) = []"
    by simp
  from h1 h2 h3 h4 h5 h6 a b show ?thesis by simp
qed

end
